theory Spec2Isabelle
  imports Main "HOL-Library.Word"
begin

section \<open>Data model\<close>

text \<open>
  One row of the \<open>users\<close> table, with the columns of the schema the project sets up:
  \<open>password\<close> is \<open>NOT NULL\<close>, the columns \<open>name\<close>, \<open>username\<close>, \<open>image\<close>,
  \<open>resetToken\<close> and \<open>resetTokenExpiry\<close> default to \<open>NULL\<close>. The clock of a request
  counts milliseconds, as \<open>Date.now()\<close> does. The columns \<open>resetTokenExpiry\<close>
  (\<open>datetime\<close>) and \<open>created_at\<close> (\<open>timestamp\<close>) hold whole seconds.
\<close>

record user =
  user_id :: nat
  email :: string
  password :: string
  name :: "string option"
  username :: "string option"
  onboarded :: nat
  image_col :: "string option"
  resetToken :: "string option"
  resetTokenExpiry :: "nat option"
  created_at :: nat

text \<open>
  JSON values: what \<open>express.json()\<close> may put in a field of a request body, and what a
  response carries. An object keeps its keys in order. A number is a natural here; every
  handler treats another number as it treats a positive one.
\<close>

datatype json = JNull | JBool bool | JNum nat | JStr string | JArr "json list"
  | JObj "(string \<times> json) list"

datatype response = Response nat json

text \<open>The claims of a session token: the \<open>id\<close> the server signs, and the seconds of issue and of expiry.\<close>

record jwt_payload =
  jwt_id :: nat
  jwt_iat :: nat
  jwt_exp :: nat

text \<open>An exception thrown inside the \<open>try\<close> of a handler; the handlers do not tell them apart.\<close>

datatype exn = TypeError | ArgumentError | QueryError

text \<open>The two ways the verification of a session token fails.\<close>

datatype AuthError = Invalid | Expired

text \<open>
  The third-party code the server calls is a parameter of the model, as far as it works on
  well-typed arguments: \<open>bcrypt.hash\<close> (data, cost, and the salt it draws) and
  \<open>bcrypt.compare\<close> on strings, the hex SHA-256 digest of a string, the compact encoding
  of a token (claims and signature) with its decoding, and the keyed signature of the
  claims. \<open>mysql_rows\<close> is what a \<open>SELECT\<close> returns, or throws, when the value bound to
  its \<open>?\<close> is not a string: the text the driver sends for such a value is not in the
  source.
\<close>

record lib =
  bcrypt_hash :: "string \<Rightarrow> nat \<Rightarrow> string \<Rightarrow> string"
  bcrypt_compare :: "string \<Rightarrow> string \<Rightarrow> bool"
  sha256_hex :: "string \<Rightarrow> string"
  jwt_encode :: "jwt_payload \<Rightarrow> string \<Rightarrow> string"
  jwt_decode :: "string \<Rightarrow> (jwt_payload \<times> string) option"
  hmac :: "string \<Rightarrow> jwt_payload \<Rightarrow> string"
  mysql_rows :: "string \<Rightarrow> json \<Rightarrow> user list \<Rightarrow> exn + user list"

text \<open>
  What one request reads from its surroundings: the clock, the salt \<open>bcrypt\<close> draws, the
  32 bytes \<open>crypto.randomBytes(32)\<close> returns, and \<open>process.env.JWT_SECRET\<close>, which is set.
\<close>

record env =
  now :: nat
  salt :: string
  randomBytes32 :: "8 word list"
  JWT_SECRET :: string

section \<open>The store\<close>

text \<open>
  The table is the list of its rows in insertion order. The statements are the queries of
  \<open>server.js\<close>, one constructor for each \<open>INSERT\<close> and \<open>UPDATE\<close>; a \<open>SELECT\<close> is a
  filter. Column comparison is equality of strings. An instant written to a \<open>datetime\<close>
  or \<open>timestamp\<close> column loses its milliseconds (the MariaDB of the README's XAMPP
  setup truncates), and \<open>NOW()\<close> is the whole second of the clock. The values a handler
  writes are strings that fit their columns; each write follows its guarding \<open>SELECT\<close>
  in the same handler, and handlers run one after the other here, so the unique keys are
  not violated by a write and the store does not fail.
\<close>

datatype stmt =
    InsertUser string string nat
  | UpdatePassword string nat
  | UpdateResetToken string nat nat
  | UpdatePasswordClearReset string nat
  | UpdateOnboarding string string nat

definition next_id :: "user list \<Rightarrow> nat" where
  "next_id db = Suc (fold max (map user_id db) 0)"

text \<open>
  \<open>exec t w db\<close> is the table after the statement \<open>w\<close>, sent at the instant \<open>t\<close>. The
  expiry of \<open>UpdateResetToken\<close> is the \<open>Date\<close> the handler passes, in milliseconds.
\<close>

fun exec :: "nat \<Rightarrow> stmt \<Rightarrow> user list \<Rightarrow> user list" where
  "exec t (InsertUser e p ob) db =
     db @ [\<lparr>user_id = next_id db, email = e, password = p, name = None, username = None,
            onboarded = ob, image_col = None, resetToken = None, resetTokenExpiry = None,
            created_at = t div 1000\<rparr>]"
| "exec t (UpdatePassword p i) db =
     map (\<lambda>u. if user_id u = i then u\<lparr>password := p\<rparr> else u) db"
| "exec t (UpdateResetToken tok ex i) db =
     map (\<lambda>u. if user_id u = i
              then u\<lparr>resetToken := Some tok, resetTokenExpiry := Some (ex div 1000)\<rparr> else u) db"
| "exec t (UpdatePasswordClearReset p i) db =
     map (\<lambda>u. if user_id u = i
              then u\<lparr>password := p, resetToken := None, resetTokenExpiry := None\<rparr> else u) db"
| "exec t (UpdateOnboarding n un i) db =
     map (\<lambda>u. if user_id u = i then u\<lparr>name := Some n, username := Some un, onboarded := 1\<rparr> else u) db"

definition apply_writes :: "nat \<Rightarrow> stmt list \<Rightarrow> user list \<Rightarrow> user list" where
  "apply_writes t ws db = foldl (\<lambda>d w. exec t w d) db ws"

definition select_by_email :: "user list \<Rightarrow> string \<Rightarrow> user list" where
  "select_by_email db e = filter (\<lambda>u. email u = e) db"

definition select_by_id :: "user list \<Rightarrow> nat \<Rightarrow> user list" where
  "select_by_id db i = filter (\<lambda>u. user_id u = i) db"

text \<open>\<open>resetTokenExpiry > NOW()\<close>, at the instant \<open>t\<close> of the clock.\<close>

definition unexpired :: "nat \<Rightarrow> user \<Rightarrow> bool" where
  "unexpired t u = (case resetTokenExpiry u of None \<Rightarrow> False | Some ex \<Rightarrow> t div 1000 < ex)"

definition select_by_resetToken :: "user list \<Rightarrow> string \<Rightarrow> nat \<Rightarrow> user list" where
  "select_by_resetToken db tok t = filter (\<lambda>u. resetToken u = Some tok \<and> unexpired t u) db"

definition select_by_username_other :: "user list \<Rightarrow> string \<Rightarrow> nat \<Rightarrow> user list" where
  "select_by_username_other db un i = filter (\<lambda>u. username u = Some un \<and> user_id u \<noteq> i) db"

text \<open>\<open>SELECT * FROM users WHERE email = ?\<close> with a value of the request bound to \<open>?\<close>.\<close>

definition query_by_email :: "lib \<Rightarrow> user list \<Rightarrow> json \<Rightarrow> exn + user list" where
  "query_by_email L db v =
     (case v of
        JStr e \<Rightarrow> Inr (select_by_email db e)
      | _ \<Rightarrow> mysql_rows L ''SELECT * FROM users WHERE email = ?'' v db)"

section \<open>Values of the language\<close>

text \<open>
  A body field is absent or a JSON value; \<open>!x\<close> holds of an absent field, of \<open>null\<close>,
  \<open>false\<close>, \<open>0\<close> and the empty string, and of no array or object.
\<close>

definition falsy :: "json option \<Rightarrow> bool" where
  "falsy x =
     (case x of
        None \<Rightarrow> True
      | Some v \<Rightarrow>
          (case v of
             JNull \<Rightarrow> True
           | JBool b \<Rightarrow> \<not> b
           | JNum n \<Rightarrow> n = 0
           | JStr s \<Rightarrow> s = []
           | JArr vs \<Rightarrow> False
           | JObj kvs \<Rightarrow> False))"

text \<open>The string a field holds, for a field that holds one.\<close>

definition string_of :: "json option \<Rightarrow> string" where
  "string_of x = (case x of Some (JStr s) \<Rightarrow> s | _ \<Rightarrow> [])"

definition opt_json :: "('a \<Rightarrow> json) \<Rightarrow> 'a option \<Rightarrow> json" where
  "opt_json f x = (case x of None \<Rightarrow> JNull | Some v \<Rightarrow> f v)"

text \<open>The object \<open>mysql2\<close> builds for a row of \<open>SELECT *\<close>: every column, in the table's order.\<close>

definition row_json :: "user \<Rightarrow> (string \<times> json) list" where
  "row_json u =
     [(''id'', JNum (user_id u)), (''email'', JStr (email u)), (''password'', JStr (password u)),
      (''name'', opt_json JStr (name u)), (''username'', opt_json JStr (username u)),
      (''onboarded'', JNum (onboarded u)), (''image'', opt_json JStr (image_col u)),
      (''resetToken'', opt_json JStr (resetToken u)),
      (''resetTokenExpiry'', opt_json JNum (resetTokenExpiry u)),
      (''created_at'', JNum (created_at u))]"

text \<open>\<open>delete obj.key\<close>\<close>

definition delete_key :: "string \<Rightarrow> (string \<times> json) list \<Rightarrow> (string \<times> json) list" where
  "delete_key k kvs = filter (\<lambda>kv. fst kv \<noteq> k) kvs"

definition message :: "nat \<Rightarrow> string \<Rightarrow> response" where
  "message st m = Response st (JObj [(''message'', JStr m)])"

text \<open>\<open>s.replace(pat, rep)\<close> with a string pattern: the first occurrence only.\<close>

fun js_replace :: "string \<Rightarrow> string \<Rightarrow> string \<Rightarrow> string" where
  "js_replace pat rep [] = (if pat = [] then rep else [])"
| "js_replace pat rep (c # cs) =
     (if take (length pat) (c # cs) = pat then rep @ drop (length pat) (c # cs)
      else c # js_replace pat rep cs)"

text \<open>\<open>buf.toString('hex')\<close>: two lower-case digits for each byte.\<close>

definition hex_digit :: "nat \<Rightarrow> char" where
  "hex_digit n = ''0123456789abcdef'' ! (n mod 16)"

definition byte_hex :: "8 word \<Rightarrow> string" where
  "byte_hex b = [hex_digit (unat b div 16), hex_digit (unat b mod 16)]"

definition to_hex :: "8 word list \<Rightarrow> string" where
  "to_hex bs = concat (map byte_hex bs)"

section \<open>The library calls\<close>

text \<open>
  \<open>bcrypt.hash\<close> and \<open>bcrypt.compare\<close> reject data that is not a string, and
  \<open>hash.update\<close> throws a \<open>TypeError\<close> on it; a value of a request body is never a
  \<open>Buffer\<close>.
\<close>

definition bcrypt_hash_js :: "lib \<Rightarrow> json \<Rightarrow> nat \<Rightarrow> string \<Rightarrow> exn + string" where
  "bcrypt_hash_js L v rounds s =
     (case v of JStr p \<Rightarrow> Inr (bcrypt_hash L p rounds s) | _ \<Rightarrow> Inl ArgumentError)"

definition bcrypt_compare_js :: "lib \<Rightarrow> json \<Rightarrow> string \<Rightarrow> exn + bool" where
  "bcrypt_compare_js L v h =
     (case v of JStr p \<Rightarrow> Inr (bcrypt_compare L p h) | _ \<Rightarrow> Inl ArgumentError)"

definition sha256_js :: "lib \<Rightarrow> json \<Rightarrow> exn + string" where
  "sha256_js L v = (case v of JStr s \<Rightarrow> Inr (sha256_hex L s) | _ \<Rightarrow> Inl TypeError)"

text \<open>
  Modelled from the spec: the validity window of a session token, one hour, which the
  server writes as the span \<open>'1h'\<close> in its call of \<open>jwt.sign\<close>; \<open>jsonwebtoken\<close> is not in
  the source. No other span is read here.
\<close>

definition expiresIn_seconds :: "string \<Rightarrow> nat option" where
  "expiresIn_seconds span = (if span = ''1h'' then Some 3600 else None)"

text \<open>
  Modelled from the spec: the claim set of a session token, subject, instant of issue and
  instant of expiry, the window after the issue; \<open>jsonwebtoken\<close>, which builds it, is not
  in the source. The instants are whole seconds of the clock.
\<close>

definition jwt_claims :: "nat \<Rightarrow> nat \<Rightarrow> nat \<Rightarrow> jwt_payload" where
  "jwt_claims i w t = \<lparr>jwt_id = i, jwt_iat = t div 1000, jwt_exp = t div 1000 + w\<rparr>"

text \<open>
  Modelled from the spec: \<open>issue\<close> of the session token issuer, which is \<open>jwt.sign\<close> of
  \<open>jsonwebtoken\<close>, not in the source. It produces a signed token that binds the account
  id and an expiry one hour from the issue, under the server's key: the compact
  encoding of the claims and of their signature.
\<close>

definition jwt_sign :: "lib \<Rightarrow> nat \<Rightarrow> string \<Rightarrow> string \<Rightarrow> nat \<Rightarrow> exn + string" where
  "jwt_sign L i key span t =
     (case expiresIn_seconds span of
        None \<Rightarrow> Inl ArgumentError
      | Some w \<Rightarrow> Inr (jwt_encode L (jwt_claims i w t) (hmac L key (jwt_claims i w t))))"

text \<open>
  Modelled from the spec: \<open>verify\<close> of the session token verifier, which is \<open>jwt.verify\<close>
  of \<open>jsonwebtoken\<close>, not in the source. It checks the structure, the signature and the
  expiry: it fails with \<open>Invalid\<close> on a malformed token and on a bad signature, with
  \<open>Expired\<close> on an otherwise valid token whose time has lapsed, and returns the claims
  otherwise.
\<close>

definition jwt_verify :: "lib \<Rightarrow> string \<Rightarrow> string \<Rightarrow> nat \<Rightarrow> AuthError + jwt_payload" where
  "jwt_verify L tok key t =
     (case jwt_decode L tok of
        None \<Rightarrow> Inl Invalid
      | Some (c, s) \<Rightarrow>
          if s \<noteq> hmac L key c then Inl Invalid
          else if jwt_exp c \<le> t div 1000 then Inl Expired
          else Inr c)"

section \<open>The authentication middleware\<close>

text \<open>
  \<open>authMiddleware\<close> reads the \<open>Authorization\<close> header, removes the first \<open>Bearer \<close> from
  it and hands the rest to \<open>jwt.verify\<close>. With no header, \<open>replace\<close> is called on
  \<open>undefined\<close> and throws; that and every exception of \<open>jwt.verify\<close> end in the one
  \<open>catch\<close>. \<open>Inr\<close> is \<open>next()\<close> with \<open>req.user\<close> set to the decoded payload.
\<close>

definition auth_failed :: response where
  "auth_failed = Response 401 (JObj [(''error'', JStr ''Authentication failed.'')])"

definition authMiddleware :: "lib \<Rightarrow> env \<Rightarrow> string option \<Rightarrow> response + jwt_payload" where
  "authMiddleware L ev hdr =
     (case hdr of
        None \<Rightarrow> Inl auth_failed
      | Some h \<Rightarrow>
          (case jwt_verify L (js_replace ''Bearer '' [] h) (JWT_SECRET ev) (now ev) of
             Inl e \<Rightarrow> Inl auth_failed
           | Inr decoded \<Rightarrow> Inr decoded))"

section \<open>The routes\<close>

text \<open>
  Each handler reads the table and answers with its response and the writes it sent to
  the store, in order. The table after the request is the table with those writes
  applied. A field whose value the handler passes to \<open>bcrypt\<close>, to the digest or to the
  \<open>WHERE\<close> of a \<open>SELECT\<close> is any JSON value; a field whose value the handler writes into
  a column (the e-mail of a registration, the name and username of the onboarding) is a
  string when it is there. An exception thrown in the \<open>try\<close> of a handler is answered by
  its \<open>catch\<close> with status 500.
\<close>

definition register :: "lib \<Rightarrow> env \<Rightarrow> user list \<Rightarrow> string option \<Rightarrow> json option
    \<Rightarrow> response \<times> stmt list" where
  "register L ev db email_f password_f =
     (if falsy (map_option JStr email_f) \<or> falsy password_f
      then (message 400 ''Email and password are required'', [])
      else
        let e = the email_f in
        if length (select_by_email db e) > 0
        then (message 409 ''User with this email already exists'', [])
        else
          (case bcrypt_hash_js L (the password_f) 10 (salt ev) of
             Inl x \<Rightarrow> (message 500 ''An error occurred during registration'', [])
           | Inr hashedPassword \<Rightarrow>
               let w = InsertUser e hashedPassword 0
               in (case select_by_email (exec (now ev) w db) e of
                     [] \<Rightarrow> (message 500 ''An error occurred during registration'', [w])
                   | newUser # _ \<Rightarrow>
                       (Response 201 (JObj [(''message'', JStr ''User registered successfully''),
                                            (''user'', JObj (delete_key ''password'' (row_json newUser)))]),
                        [w]))))"

definition login :: "lib \<Rightarrow> env \<Rightarrow> user list \<Rightarrow> json option \<Rightarrow> json option
    \<Rightarrow> response \<times> stmt list" where
  "login L ev db email_f password_f =
     (if falsy email_f \<or> falsy password_f then (message 400 ''Email and password are required'', [])
      else
        (case query_by_email L db (the email_f) of
           Inl x \<Rightarrow> (message 500 ''An error occurred during login'', [])
         | Inr users \<Rightarrow>
             (case users of
                [] \<Rightarrow> (message 401 ''Invalid email or password'', [])
              | u # _ \<Rightarrow>
                  (case bcrypt_compare_js L (the password_f) (password u) of
                     Inl x \<Rightarrow> (message 500 ''An error occurred during login'', [])
                   | Inr isMatch \<Rightarrow>
                       if \<not> isMatch then (message 401 ''Invalid email or password'', [])
                       else
                         (case jwt_sign L (user_id u) (JWT_SECRET ev) ''1h'' (now ev) of
                            Inl x \<Rightarrow> (message 500 ''An error occurred during login'', [])
                          | Inr token \<Rightarrow>
                              (Response 200
                                 (JObj [(''user'', JObj (delete_key ''password'' (row_json u))),
                                        (''token'', JStr token)]),
                               []))))))"

definition profile_password :: "lib \<Rightarrow> env \<Rightarrow> user list \<Rightarrow> string option
    \<Rightarrow> json option \<Rightarrow> json option \<Rightarrow> response \<times> stmt list" where
  "profile_password L ev db hdr oldPassword newPassword =
     (case authMiddleware L ev hdr of
        Inl r \<Rightarrow> (r, [])
      | Inr decoded \<Rightarrow>
          if falsy oldPassword \<or> falsy newPassword
          then (message 400 ''Old and new passwords are required'', [])
          else
            (case select_by_id db (jwt_id decoded) of
               [] \<Rightarrow> (message 404 ''User not found'', [])
             | u # _ \<Rightarrow>
                 (case bcrypt_compare_js L (the oldPassword) (password u) of
                    Inl x \<Rightarrow> (message 500 ''An error occurred while changing the password'', [])
                  | Inr isMatch \<Rightarrow>
                      if \<not> isMatch then (message 401 ''Incorrect old password'', [])
                      else
                        (case bcrypt_hash_js L (the newPassword) 10 (salt ev) of
                           Inl x \<Rightarrow> (message 500 ''An error occurred while changing the password'', [])
                         | Inr hashedNewPassword \<Rightarrow>
                             (message 200 ''Password updated successfully'',
                              [UpdatePassword hashedNewPassword (user_id u)])))))"

definition forgot_password :: "lib \<Rightarrow> env \<Rightarrow> user list \<Rightarrow> json option
    \<Rightarrow> response \<times> stmt list" where
  "forgot_password L ev db email_f =
     (if falsy email_f then (message 400 ''Email is required'', [])
      else
        (case query_by_email L db (the email_f) of
           Inl x \<Rightarrow> (message 500 ''An error occurred'', [])
         | Inr users \<Rightarrow>
             (message 200 ''If a user with that email exists, a password reset link has been sent.'',
              (case users of
                 [] \<Rightarrow> []
               | u # _ \<Rightarrow>
                   let resetTok = to_hex (randomBytes32 ev);
                       hashedResetToken = sha256_hex L resetTok;
                       tokenExpiry = now ev + 3600000
                   in [UpdateResetToken hashedResetToken tokenExpiry (user_id u)]))))"

definition invalid_or_expired :: response where
  "invalid_or_expired = message 400 ''Invalid or expired password reset token.''"

definition reset_password :: "lib \<Rightarrow> env \<Rightarrow> user list \<Rightarrow> json option \<Rightarrow> json option
    \<Rightarrow> response \<times> stmt list" where
  "reset_password L ev db token_f newPassword =
     (if falsy token_f \<or> falsy newPassword
      then (message 400 ''Token and new password are required'', [])
      else
        (case sha256_js L (the token_f) of
           Inl x \<Rightarrow> (message 500 ''An error occurred while resetting the password.'', [])
         | Inr hashedToken \<Rightarrow>
             (case select_by_resetToken db hashedToken (now ev) of
                [] \<Rightarrow> (invalid_or_expired, [])
              | u # _ \<Rightarrow>
                  (case bcrypt_hash_js L (the newPassword) 10 (salt ev) of
                     Inl x \<Rightarrow> (message 500 ''An error occurred while resetting the password.'', [])
                   | Inr hashedNewPassword \<Rightarrow>
                       (message 200 ''Password has been reset successfully.'',
                        [UpdatePasswordClearReset hashedNewPassword (user_id u)])))))"

definition onboarding :: "lib \<Rightarrow> env \<Rightarrow> user list \<Rightarrow> string option
    \<Rightarrow> string option \<Rightarrow> string option \<Rightarrow> response \<times> stmt list" where
  "onboarding L ev db hdr name_f username_f =
     (case authMiddleware L ev hdr of
        Inl r \<Rightarrow> (r, [])
      | Inr decoded \<Rightarrow>
          let userId = jwt_id decoded in
          if falsy (map_option JStr name_f) \<or> falsy (map_option JStr username_f)
          then (message 400 ''Name and username are required'', [])
          else if length (select_by_username_other db (the username_f) userId) > 0
          then (message 409 ''Username is already taken. Please choose another.'', [])
          else (message 200 ''Onboarding completed successfully!'',
                [UpdateOnboarding (the name_f) (the username_f) userId]))"

text \<open>The requests of the server, and one request served: the response and the table after it.\<close>

datatype request =
    Register "string option" "json option"
  | Login "json option" "json option"
  | ProfilePassword "string option" "json option" "json option"
  | ForgotPassword "json option"
  | ResetPassword "json option" "json option"
  | Onboarding "string option" "string option" "string option"

fun handle :: "lib \<Rightarrow> env \<Rightarrow> user list \<Rightarrow> request \<Rightarrow> response \<times> stmt list" where
  "handle L ev db (Register e p) = register L ev db e p"
| "handle L ev db (Login e p) = login L ev db e p"
| "handle L ev db (ProfilePassword h old new) = profile_password L ev db h old new"
| "handle L ev db (ForgotPassword e) = forgot_password L ev db e"
| "handle L ev db (ResetPassword t p) = reset_password L ev db t p"
| "handle L ev db (Onboarding h n un) = onboarding L ev db h n un"

definition serve :: "lib \<Rightarrow> env \<Rightarrow> user list \<Rightarrow> request \<Rightarrow> response \<times> user list" where
  "serve L ev db rq = (case handle L ev db rq of (r, ws) \<Rightarrow> (r, apply_writes (now ev) ws db))"

fun run :: "lib \<Rightarrow> user list \<Rightarrow> (env \<times> request) list \<Rightarrow> user list" where
  "run L db [] = db"
| "run L db ((ev, rq) # rest) = run L (snd (serve L ev db rq)) rest"

section \<open>Notions the properties are stated with\<close>


text \<open>Some row of another account stores the fingerprint \<open>fp\<close>.\<close>

definition held_elsewhere :: "user list \<Rightarrow> nat \<Rightarrow> string \<Rightarrow> bool" where
  "held_elsewhere db i fp = list_ex (\<lambda>u. user_id u \<noteq> i \<and> resetToken u = Some fp) db"

text \<open>The tables the store goes through while a handler's writes are applied, the first one included.\<close>

definition store_states :: "nat \<Rightarrow> stmt list \<Rightarrow> user list \<Rightarrow> user list list" where
  "store_states t ws db = map (\<lambda>n. apply_writes t (take n ws) db) [0 ..< Suc (length ws)]"

section \<open>The OAuth account link\<close>

text \<open>
  Modelled from the spec: the Account of the specification's data model, with the fields
  the account link names. The handler of \<open>POST /api/auth/google\<close>, which the NextAuth
  \<open>jwt\<close> callback calls after a Google sign-in, is not among the routes of \<open>server.js\<close>;
  there the password hash of an account may be absent.
\<close>

record account =
  acc_id :: nat
  acc_email :: string
  passwordHash :: "string option"
  acc_onboarded :: bool

text \<open>Modelled from the spec: \<open>findByEmail\<close> of the account store adapter, which the missing handler calls.\<close>

definition findByEmail :: "account list \<Rightarrow> string \<Rightarrow> account option" where
  "findByEmail store em = List.find (\<lambda>a. acc_email a = em) store"

text \<open>Modelled from the spec: the identifier the store assigns to an account at creation, which no account has yet.\<close>

definition new_account_id :: "account list \<Rightarrow> nat" where
  "new_account_id store = Suc (fold max (map acc_id store) 0)"

text \<open>
  Modelled from the spec: the OAuth Account Link workflow, in place of the missing
  handler of \<open>POST /api/auth/google\<close>. Look the e-mail up; on a miss create an account
  with no local password and \<open>onboarded = false\<close>; on a hit reuse the account; issue a
  session token either way. \<open>issue\<close> is the session token issuer; the result is the
  account with its token, and the store.
\<close>

definition oauth_account_link :: "(nat \<Rightarrow> 'tok) \<Rightarrow> account list \<Rightarrow> string \<Rightarrow> string
    \<Rightarrow> (account \<times> 'tok) \<times> account list" where
  "oauth_account_link issue store em displayName =
     (case findByEmail store em of
        None \<Rightarrow>
          (let a = \<lparr>acc_id = new_account_id store, acc_email = em, passwordHash = None,
                    acc_onboarded = False\<rparr>
           in ((a, issue (acc_id a)), store @ [a]))
      | Some a \<Rightarrow> ((a, issue (acc_id a)), store))"

section \<open>A sample library and sample requests\<close>

text \<open>
  An instance of the library parameters on which the handlers can be run: a hash that
  prepends the salt, a digest that prepends a tag, a token that writes its three claims
  as seven decimal digits each before the signature, a signature that writes the claims
  after the key, and a driver that rejects a value that is not a string.
\<close>

definition dec7 :: "nat \<Rightarrow> string" where
  "dec7 n = map (\<lambda>k. ''0123456789'' ! ((n div 10 ^ k) mod 10)) [6, 5, 4, 3, 2, 1, 0]"

definition digit_val :: "char \<Rightarrow> nat option" where
  "digit_val = map_of [(CHR ''0'', 0), (CHR ''1'', 1), (CHR ''2'', 2), (CHR ''3'', 3), (CHR ''4'', 4),
                       (CHR ''5'', 5), (CHR ''6'', 6), (CHR ''7'', 7), (CHR ''8'', 8), (CHR ''9'', 9)]"

fun undec :: "nat \<Rightarrow> string \<Rightarrow> nat option" where
  "undec acc [] = Some acc"
| "undec acc (c # cs) = (case digit_val c of None \<Rightarrow> None | Some d \<Rightarrow> undec (10 * acc + d) cs)"

definition demo_encode :: "jwt_payload \<Rightarrow> string \<Rightarrow> string" where
  "demo_encode c s = dec7 (jwt_id c) @ dec7 (jwt_iat c) @ dec7 (jwt_exp c) @ s"

definition demo_decode :: "string \<Rightarrow> (jwt_payload \<times> string) option" where
  "demo_decode tok =
     (if length tok < 21 then None
      else
        (case undec 0 (take 7 tok) of
           None \<Rightarrow> None
         | Some i \<Rightarrow>
             (case undec 0 (take 7 (drop 7 tok)) of
                None \<Rightarrow> None
              | Some a \<Rightarrow>
                  (case undec 0 (take 7 (drop 14 tok)) of
                     None \<Rightarrow> None
                   | Some x \<Rightarrow> Some (\<lparr>jwt_id = i, jwt_iat = a, jwt_exp = x\<rparr>, drop 21 tok)))))"

definition demo_lib :: lib where
  "demo_lib =
     \<lparr>bcrypt_hash = (\<lambda>p c s. s @ ''$'' @ p),
      bcrypt_compare = (\<lambda>p h. dropWhile (\<lambda>c. c \<noteq> CHR ''$'') h = ''$'' @ p),
      sha256_hex = (\<lambda>s. ''sha256:'' @ s),
      jwt_encode = demo_encode,
      jwt_decode = demo_decode,
      hmac = (\<lambda>k c. k @ ''/'' @ dec7 (jwt_id c) @ dec7 (jwt_iat c) @ dec7 (jwt_exp c)),
      mysql_rows = (\<lambda>q v db. Inl QueryError)\<rparr>"

definition demo_env :: "nat \<Rightarrow> 8 word \<Rightarrow> env" where
  "demo_env t b = \<lparr>now = t, salt = ''s4lt'', randomBytes32 = replicate 32 b, JWT_SECRET = ''key''\<rparr>"

definition demo_row :: user where
  "demo_row = \<lparr>user_id = 1, email = ''a@x.com'', password = ''s4lt$pw1'', name = None,
               username = None, onboarded = 0, image_col = None, resetToken = None,
               resetTokenExpiry = None, created_at = 1\<rparr>"

definition demo_secret :: string where
  "demo_secret = ''a7a7a7a7a7a7a7a7a7a7a7a7a7a7a7a7a7a7a7a7a7a7a7a7a7a7a7a7a7a7a7a7''"

definition demo_row_issued :: user where
  "demo_row_issued = demo_row\<lparr>resetToken := Some (''sha256:'' @ demo_secret),
                               resetTokenExpiry := Some 3602\<rparr>"

text \<open>The token the sample library issues for account 1 at the instant 3000, and the same token with its last character altered.\<close>

definition demo_token :: string where
  "demo_token = ''000000100000030003603key/000000100000030003603''"

definition demo_token_altered :: string where
  "demo_token_altered = ''000000100000030003603key/000000100000030003602''"

section \<open>Basic facts\<close>

lemma falsy_simps [simp]:
  "falsy None"
  "falsy (Some JNull)"
  "falsy (Some (JBool b)) = (\<not> b)"
  "falsy (Some (JNum n)) = (n = 0)"
  "falsy (Some (JStr s)) = (s = [])"
  "\<not> falsy (Some (JArr vs))"
  "\<not> falsy (Some (JObj kvs))"
  by (simp_all add: falsy_def)

lemma string_of_JStr [simp]: "string_of (Some (JStr s)) = s"
  by (simp add: string_of_def)

lemma apply_writes_Nil [simp]: "apply_writes t [] db = db"
  by (simp add: apply_writes_def)

lemma apply_writes_single [simp]: "apply_writes t [w] db = exec t w db"
  by (simp add: apply_writes_def)

lemma replicate_numeral: "replicate (numeral k) x = x # replicate (pred_numeral k) x"
  by (simp add: numeral_eq_Suc)

lemma to_hex_nonempty: "bs \<noteq> [] \<Longrightarrow> to_hex bs \<noteq> []"
  by (cases bs) (simp_all add: to_hex_def byte_hex_def)

lemma js_replace_prefix: "pat \<noteq> [] \<Longrightarrow> js_replace pat rep (pat @ s) = rep @ s"
  by (cases pat) simp_all

lemma select_by_email_mem: "select_by_email db e = a # rest \<Longrightarrow> a \<in> set db"
  by (metis filter_is_subset list.set_intros(1) select_by_email_def subsetD)

lemma serve_snd: "snd (serve L ev db rq) = apply_writes (now ev) (snd (handle L ev db rq)) db"
  by (simp add: serve_def split: prod.splits)

lemma serve_fst: "fst (serve L ev db rq) = fst (handle L ev db rq)"
  by (simp add: serve_def split: prod.splits)

lemma status_of_message: "message st m = message st' m' \<Longrightarrow> st = st'"
  by (simp add: message_def)

lemma seconds_after_hour: "(t + 3600000) div 1000 = t div 1000 + (3600::nat)"
  by simp

subsection \<open>The library calls on strings\<close>

lemma bcrypt_hash_js_JStr [simp]: "bcrypt_hash_js L (JStr p) r s = Inr (bcrypt_hash L p r s)"
  by (simp add: bcrypt_hash_js_def)

lemma bcrypt_compare_js_JStr [simp]: "bcrypt_compare_js L (JStr p) h = Inr (bcrypt_compare L p h)"
  by (simp add: bcrypt_compare_js_def)

lemma sha256_js_JStr [simp]: "sha256_js L (JStr s) = Inr (sha256_hex L s)"
  by (simp add: sha256_js_def)

lemma query_by_email_JStr [simp]: "query_by_email L db (JStr e) = Inr (select_by_email db e)"
  by (simp add: query_by_email_def)

lemma bcrypt_hash_js_Inr: "bcrypt_hash_js L v r s = Inr h \<Longrightarrow> h = bcrypt_hash L (string_of (Some v)) r s"
  by (cases v) (simp_all add: bcrypt_hash_js_def)

lemma sha256_js_Inr: "sha256_js L v = Inr h \<Longrightarrow> h = sha256_hex L (string_of (Some v))"
  by (cases v) (simp_all add: sha256_js_def)

lemma jwt_sign_hour:
  "jwt_sign L i key ''1h'' t =
     Inr (jwt_encode L (jwt_claims i 3600 t) (hmac L key (jwt_claims i 3600 t)))"
  by (simp add: jwt_sign_def expiresIn_seconds_def)

subsection \<open>What each handler does on its paths\<close>

lemma login_success:
  assumes "select_by_email db e = u # rest" and "e \<noteq> []" and "p \<noteq> []"
    and "bcrypt_compare L p (password u)"
  shows "login L ev db (Some (JStr e)) (Some (JStr p)) =
    (Response 200 (JObj [(''user'', JObj (delete_key ''password'' (row_json u))),
                         (''token'', JStr (jwt_encode L (jwt_claims (user_id u) 3600 (now ev))
                                             (hmac L (JWT_SECRET ev) (jwt_claims (user_id u) 3600 (now ev)))))]), [])"
  using assms by (simp add: login_def jwt_sign_hour)

lemma login_strings_no_enumeration:
  assumes "e1 \<noteq> []" and "p1 \<noteq> []" and "e2 \<noteq> []" and "p2 \<noteq> []"
    and "select_by_email db1 e1 = []"
    and "select_by_email db2 e2 = u # rest"
    and "\<not> bcrypt_compare L p2 (password u)"
  shows "login L ev1 db1 (Some (JStr e1)) (Some (JStr p1)) = (message 401 ''Invalid email or password'', [])
       \<and> login L ev2 db2 (Some (JStr e2)) (Some (JStr p2)) = login L ev1 db1 (Some (JStr e1)) (Some (JStr p1))"
  using assms by (simp add: login_def)

lemma forgot_password_writes:
  assumes "select_by_email db e = a # rest" and "e \<noteq> []"
  shows "forgot_password L ev db (Some (JStr e)) =
    (message 200 ''If a user with that email exists, a password reset link has been sent.'',
     [UpdateResetToken (sha256_hex L (to_hex (randomBytes32 ev))) (now ev + 3600000) (user_id a)])"
  using assms by (simp add: forgot_password_def)

lemma serve_forgot_password:
  assumes "select_by_email db e = a # rest" and "e \<noteq> []"
  shows "snd (serve L ev db (ForgotPassword (Some (JStr e)))) =
    exec (now ev) (UpdateResetToken (sha256_hex L (to_hex (randomBytes32 ev))) (now ev + 3600000) (user_id a)) db"
  by (simp add: serve_def forgot_password_writes[OF assms])

lemma reset_password_found:
  assumes "select_by_resetToken db (sha256_hex L s) (now ev) = u # rest" and "s \<noteq> []" and "pw \<noteq> []"
  shows "reset_password L ev db (Some (JStr s)) (Some (JStr pw)) =
    (message 200 ''Password has been reset successfully.'',
     [UpdatePasswordClearReset (bcrypt_hash L pw 10 (salt ev)) (user_id u)])"
  using assms by (simp add: reset_password_def)

lemma reset_password_missing:
  assumes "select_by_resetToken db (sha256_hex L s) (now ev) = []" and "s \<noteq> []" and "pw \<noteq> []"
  shows "reset_password L ev db (Some (JStr s)) (Some (JStr pw)) = (invalid_or_expired, [])"
  using assms by (simp add: reset_password_def)

lemma reset_password_ok:
  assumes ok: "fst (reset_password L ev db tok pw) = message 200 ''Password has been reset successfully.''"
  shows "\<exists>u us. select_by_resetToken db (sha256_hex L (string_of tok)) (now ev) = u # us \<and>
        reset_password L ev db tok pw =
          (message 200 ''Password has been reset successfully.'',
           [UpdatePasswordClearReset (bcrypt_hash L (string_of pw) 10 (salt ev)) (user_id u)])"
proof -
  have ne: "message 400 ''Token and new password are required'' \<noteq> message 200 ''Password has been reset successfully.''"
    "message 500 ''An error occurred while resetting the password.'' \<noteq> message 200 ''Password has been reset successfully.''"
    "invalid_or_expired \<noteq> message 200 ''Password has been reset successfully.''"
    unfolding invalid_or_expired_def using status_of_message by fastforce+
  show ?thesis
  proof (cases "falsy tok \<or> falsy pw")
    case True
    then show ?thesis using ok ne by (simp add: reset_password_def)
  next
    case False
    then obtain tv pv where tok: "tok = Some tv" and pw: "pw = Some pv"
      by (cases tok; cases pw) auto
    show ?thesis
    proof (cases "sha256_js L tv")
      case (Inl x)
      then show ?thesis using ok ne False tok by (simp add: reset_password_def)
    next
      case (Inr h)
      then have h: "h = sha256_hex L (string_of tok)" using sha256_js_Inr tok by blast
      show ?thesis
      proof (cases "select_by_resetToken db h (now ev)")
        case Nil
        then show ?thesis using ok ne False tok Inr by (simp add: reset_password_def)
      next
        case (Cons u us)
        show ?thesis
        proof (cases "bcrypt_hash_js L pv 10 (salt ev)")
          case (Inl x)
          then show ?thesis using ok ne False tok pw Inr Cons by (simp add: reset_password_def)
        next
          case hashed: (Inr hp)
          then have "hp = bcrypt_hash L (string_of pw) 10 (salt ev)"
            using bcrypt_hash_js_Inr pw by blast
          then show ?thesis using False tok pw Inr Cons hashed h by (simp add: reset_password_def)
        qed
      qed
    qed
  qed
qed

lemma authMiddleware_Inl: "authMiddleware L ev hdr = Inl r \<Longrightarrow> r = auth_failed"
  by (auto simp: authMiddleware_def split: option.splits sum.splits)

lemma profile_password_ok:
  assumes ok: "fst (profile_password L ev db hdr old new) = message 200 ''Password updated successfully''"
  shows "\<exists>i. snd (profile_password L ev db hdr old new)
              = [UpdatePassword (bcrypt_hash L (string_of new) 10 (salt ev)) i]"
proof (cases "authMiddleware L ev hdr")
  case (Inl r)
  then have "r = auth_failed" by (rule authMiddleware_Inl)
  then have "r \<noteq> message 200 ''Password updated successfully''"
    by (simp add: auth_failed_def message_def)
  then show ?thesis using Inl ok by (simp add: profile_password_def)
next
  case (Inr d)
  have ne: "message 400 ''Old and new passwords are required'' \<noteq> message 200 ''Password updated successfully''"
    "message 404 ''User not found'' \<noteq> message 200 ''Password updated successfully''"
    "message 401 ''Incorrect old password'' \<noteq> message 200 ''Password updated successfully''"
    "message 500 ''An error occurred while changing the password'' \<noteq> message 200 ''Password updated successfully''"
    using status_of_message by fastforce+
  show ?thesis
  proof (cases "falsy old \<or> falsy new")
    case True
    then show ?thesis using Inr ok ne by (simp add: profile_password_def)
  next
    case False
    then obtain ov nv where old: "old = Some ov" and new: "new = Some nv"
      by (cases old; cases new) auto
    show ?thesis
    proof (cases "select_by_id db (jwt_id d)")
      case Nil
      then show ?thesis using Inr False ok ne by (simp add: profile_password_def)
    next
      case (Cons u us)
      show ?thesis
      proof (cases "bcrypt_compare_js L ov (password u)")
        case (Inl x)
        then show ?thesis using Inr False Cons ok ne old by (simp add: profile_password_def)
      next
        case cmp: (Inr isMatch)
        show ?thesis
        proof (cases isMatch)
          case False
          then show ?thesis using Inr \<open>\<not> (falsy old \<or> falsy new)\<close> Cons cmp ok ne old
            by (simp add: profile_password_def)
        next
          case True
          show ?thesis
          proof (cases "bcrypt_hash_js L nv 10 (salt ev)")
            case (Inl x)
            then show ?thesis using Inr \<open>\<not> (falsy old \<or> falsy new)\<close> Cons cmp True ok ne old new
              by (simp add: profile_password_def)
          next
            case hashed: (Inr hp)
            then have "hp = bcrypt_hash L (string_of new) 10 (salt ev)"
              using bcrypt_hash_js_Inr new by blast
            then show ?thesis using Inr \<open>\<not> (falsy old \<or> falsy new)\<close> Cons cmp True hashed old new
              by (simp add: profile_password_def)
          qed
        qed
      qed
    qed
  qed
qed

lemma authMiddleware_bearer:
  "authMiddleware L ev (Some (''Bearer '' @ tok)) =
     (case jwt_verify L tok (JWT_SECRET ev) (now ev) of Inl x \<Rightarrow> Inl auth_failed | Inr d \<Rightarrow> Inr d)"
proof -
  have "js_replace ''Bearer '' [] (''Bearer '' @ tok) = tok"
    using js_replace_prefix[of "''Bearer ''" "[]" tok] by simp
  then show ?thesis unfolding authMiddleware_def by (simp only: option.case)
qed

lemma authMiddleware_bearer_Inr:
  "jwt_verify L tok (JWT_SECRET ev) (now ev) = Inr d \<Longrightarrow>
     authMiddleware L ev (Some (''Bearer '' @ tok)) = Inr d"
  by (simp only: authMiddleware_bearer sum.case)

lemma authMiddleware_bearer_Inl:
  "jwt_verify L tok (JWT_SECRET ev) (now ev) = Inl x \<Longrightarrow>
     authMiddleware L ev (Some (''Bearer '' @ tok)) = Inl auth_failed"
  by (simp only: authMiddleware_bearer sum.case)

subsection \<open>Reading the table after a write\<close>




lemma issued_select_ids:
  assumes "\<not> held_elsewhere db i fp"
    and "u \<in> set (select_by_resetToken (exec t (UpdateResetToken fp ex i) db) fp t')"
  shows "user_id u = i"
  using assms by (auto simp: held_elsewhere_def list_ex_iff select_by_resetToken_def split: if_splits)

lemma issued_select_nonempty:
  assumes "a \<in> set db" and "t' div 1000 < ex div 1000"
  shows "select_by_resetToken (exec t (UpdateResetToken fp ex (user_id a)) db) fp t' \<noteq> []"
proof -
  let ?a' = "a\<lparr>resetToken := Some fp, resetTokenExpiry := Some (ex div 1000)\<rparr>"
  have "?a' \<in> set (exec t (UpdateResetToken fp ex (user_id a)) db)"
    using assms(1) by (auto intro!: image_eqI[where x = a])
  moreover have "resetToken ?a' = Some fp \<and> unexpired t' ?a'"
    using assms(2) by (simp add: unexpired_def)
  ultimately have "?a' \<in> set (select_by_resetToken (exec t (UpdateResetToken fp ex (user_id a)) db) fp t')"
    unfolding select_by_resetToken_def by simp
  then show ?thesis by auto
qed

lemma issued_select_expired:
  assumes "\<not> held_elsewhere db i fp" and "ex div 1000 \<le> t' div 1000"
  shows "select_by_resetToken (exec t (UpdateResetToken fp ex i) db) fp t' = []"
  using assms
  by (auto simp: held_elsewhere_def list_ex_iff select_by_resetToken_def unexpired_def filter_empty_conv)

lemma cleared_select_empty:
  assumes "\<not> held_elsewhere db i fp"
  shows "select_by_resetToken (exec t2 (UpdatePasswordClearReset h i) (exec t (UpdateResetToken fp ex i) db)) fp t' = []"
  using assms
  by (auto simp: held_elsewhere_def list_ex_iff select_by_resetToken_def filter_empty_conv)

lemma overwritten_select_empty:
  assumes "\<not> held_elsewhere db i fp1" and "fp1 \<noteq> fp2"
  shows "select_by_resetToken
           (exec t2 (UpdateResetToken fp2 ex2 i) (exec t1 (UpdateResetToken fp1 ex1 i) db)) fp1 t' = []"
  using assms
  by (auto simp: held_elsewhere_def list_ex_iff select_by_resetToken_def filter_empty_conv)

lemma cleared_rows:
  "list_all (\<lambda>u. password u = h \<and> resetToken u = None \<and> resetTokenExpiry u = None)
     (select_by_id (exec t (UpdatePasswordClearReset h i) db) i)"
  by (induction db) (simp_all add: select_by_id_def)


lemma issued_rows:
  "list_all (\<lambda>u. resetToken u = Some fp \<and> resetTokenExpiry u = Some (ex div 1000))
     (select_by_id (exec t (UpdateResetToken fp ex i) db) i)"
  by (induction db) (simp_all add: select_by_id_def)

lemma exec_UpdateResetToken_select_by_email:
  "select_by_email (exec t (UpdateResetToken fp ex i) db) e =
   exec t (UpdateResetToken fp ex i) (select_by_email db e)"
  by (simp add: select_by_email_def filter_map comp_def cong: if_cong)

lemma exec_UpdatePassword_frame:
  "map (\<lambda>u. u\<lparr>password := []\<rparr>) (exec t (UpdatePassword h i) db) = map (\<lambda>u. u\<lparr>password := []\<rparr>) db"
  by simp

lemma exec_UpdatePassword_select:
  "select_by_resetToken (exec t (UpdatePassword h i) db) fp t' =
   exec t (UpdatePassword h i) (select_by_resetToken db fp t')"
  by (simp add: select_by_resetToken_def unexpired_def filter_map comp_def cong: if_cong)

lemma select_by_resetToken_nonempty:
  assumes "a \<in> set db" and "resetToken a = Some fp" and "resetTokenExpiry a = Some ex"
    and "t div 1000 < ex"
  shows "select_by_resetToken db fp t \<noteq> []"
proof -
  have "a \<in> set (select_by_resetToken db fp t)"
    using assms by (simp add: select_by_resetToken_def unexpired_def)
  then show ?thesis by auto
qed

subsection \<open>The session token, issued and verified\<close>

lemma jwt_verify_issued:
  assumes "jwt_decode L tok = Some (c, hmac L key c)"
  shows "jwt_verify L tok key t = (if jwt_exp c \<le> t div 1000 then Inl Expired else Inr c)"
  using assms by (simp add: jwt_verify_def)

lemma jwt_verify_bad_signature:
  assumes "jwt_decode L tok = Some (c, s)" and "s \<noteq> hmac L key c"
  shows "jwt_verify L tok key t = Inl Invalid"
  using assms by (simp add: jwt_verify_def)

lemma jwt_verify_malformed:
  assumes "jwt_decode L tok = None"
  shows "jwt_verify L tok key t = Inl Invalid"
  using assms by (simp add: jwt_verify_def)

subsection \<open>The sample requests, served\<close>

lemmas eval_simps = replicate_numeral serve_def register_def login_def forgot_password_def
  reset_password_def profile_password_def onboarding_def authMiddleware_def auth_failed_def
  invalid_or_expired_def message_def select_by_email_def select_by_id_def select_by_resetToken_def
  select_by_username_other_def unexpired_def row_json_def delete_key_def opt_json_def to_hex_def
  byte_hex_def hex_digit_def next_id_def demo_lib_def demo_env_def demo_row_def
  demo_secret_def demo_row_issued_def Let_def apply_writes_def
  jwt_sign_def jwt_verify_def jwt_claims_def expiresIn_seconds_def
  demo_encode_def demo_decode_def dec7_def digit_val_def demo_token_def demo_token_altered_def

lemma demo_to_hex: "to_hex (randomBytes32 (demo_env t 0xA7)) = demo_secret"
  by (simp add: eval_simps)

lemma demo_register:
  "serve demo_lib (demo_env 1000 0) [] (Register (Some ''a@x.com'') (Some (JStr ''pw1''))) =
     (Response 201 (JObj [(''message'', JStr ''User registered successfully''),
        (''user'', JObj [(''id'', JNum 1), (''email'', JStr ''a@x.com''), (''name'', JNull),
           (''username'', JNull), (''onboarded'', JNum 0), (''image'', JNull),
           (''resetToken'', JNull), (''resetTokenExpiry'', JNull), (''created_at'', JNum 1)])]),
      [demo_row])"
  by (simp add: eval_simps)

lemma demo_forgot:
  "serve demo_lib (demo_env 2000 0xA7) [demo_row] (ForgotPassword (Some (JStr ''a@x.com''))) =
     (message 200 ''If a user with that email exists, a password reset link has been sent.'',
      [demo_row_issued])"
  by (simp add: eval_simps)

lemma demo_issue: "jwt_sign demo_lib 1 ''key'' ''1h'' 3000 = Inr demo_token"
  by (simp add: eval_simps)

lemma demo_decode_token:
  "jwt_decode demo_lib demo_token
     = Some (jwt_claims 1 3600 3000, hmac demo_lib ''key'' (jwt_claims 1 3600 3000))"
  by (simp add: eval_simps)

lemma demo_select: "select_by_email [demo_row] ''a@x.com'' = demo_row # []"
  by (simp add: select_by_email_def demo_row_def)

lemma demo_not_held: "\<not> held_elsewhere [demo_row] (user_id demo_row) fp"
  by (simp add: held_elsewhere_def)

lemma demo_compare: "bcrypt_compare demo_lib ''pw1'' (password demo_row)"
  by (simp add: demo_lib_def demo_row_def)

section \<open>Login answers\<close>

lemma login_nonstring_password:
  assumes "e \<noteq> []" and "\<not> falsy (Some v)" and "\<And>s. v \<noteq> JStr s"
  shows "select_by_email db e = [] \<Longrightarrow>
           login L ev db (Some (JStr e)) (Some v) = (message 401 ''Invalid email or password'', [])"
    and "select_by_email db e = u # rest \<Longrightarrow>
           login L ev db (Some (JStr e)) (Some v) = (message 500 ''An error occurred during login'', [])"
  using assms by (cases v; simp add: login_def bcrypt_compare_js_def)+

text \<open>
  Claim C3 has a login with an e-mail of no account and a login with the e-mail of an
  account and a password that does not match answered alike. With the password
  \<open>12345\<close>, a number, in the table that holds the one account \<open>a@x.com\<close>: the e-mail of
  no account is answered 401 \<open>Invalid email or password\<close>, and the e-mail of the
  account is answered 500 \<open>An error occurred during login\<close>, since \<open>bcrypt.compare\<close>
  rejects the number and the \<open>catch\<close> answers. For two strings the answers are the same,
  as \<open>login_strings_no_enumeration\<close> shows.
\<close>

theorem login_number_password_tells_accounts:
  "fst (serve demo_lib (demo_env 3000 0)
          (run demo_lib [] [(demo_env 1000 0, Register (Some ''a@x.com'') (Some (JStr ''pw1'')))])
          (Login (Some (JStr ''b@x.com'')) (Some (JNum 12345))))
     = message 401 ''Invalid email or password''
   \<and> fst (serve demo_lib (demo_env 3000 0)
          (run demo_lib [] [(demo_env 1000 0, Register (Some ''a@x.com'') (Some (JStr ''pw1'')))])
          (Login (Some (JStr ''a@x.com'')) (Some (JNum 12345))))
     = message 500 ''An error occurred during login''"
  by (simp add: eval_simps bcrypt_compare_js_def query_by_email_def bcrypt_hash_js_def)

section \<open>The reset columns\<close>



section \<open>Redeeming a reset token\<close>

lemma before_stored_expiry: "t + 1000 \<le> ti + 3600000 \<Longrightarrow> t div 1000 < (ti + 3600000) div (1000::nat)"
proof -
  assume "t + 1000 \<le> ti + 3600000"
  then have "(t + 1000) div 1000 \<le> (ti + 3600000) div 1000" by (rule div_le_mono)
  then show ?thesis by simp
qed

lemma after_stored_expiry: "ti + 3600000 \<le> t \<Longrightarrow> (ti + 3600000) div 1000 \<le> t div (1000::nat)"
  by (rule div_le_mono)

text \<open>
  Claim C1. An account is issued a reset token by a forgot-password request for its
  e-mail; the expiry the store holds is the hour after the request, cut to its whole
  second. Reset-password with the secret and a new password before that expiry, when
  \<open>NOW()\<close> is a second below it, succeeds, and sets the password of the account and
  clears its reset columns; a second call with the same secret, at any time, fails with
  \<open>Invalid or expired password reset token\<close>; so does a first call at or after the
  expiry. The fingerprint of the secret is stored by no other account. A call a second
  or more before the hour is before the stored expiry, and a call at or after the hour
  is not (\<open>before_stored_expiry\<close>, \<open>after_stored_expiry\<close>).
\<close>

theorem reset_token_redeemed_once:
  assumes acct: "select_by_email db e = a # rest" and e: "e \<noteq> []"
    and rb: "randomBytes32 evi \<noteq> []" and pw: "pw \<noteq> []" and pw': "pw' \<noteq> []"
    and fresh: "\<not> held_elsewhere db (user_id a) (sha256_hex L (to_hex (randomBytes32 evi)))"
  defines "secret \<equiv> to_hex (randomBytes32 evi)"
  defines "db1 \<equiv> snd (serve L evi db (ForgotPassword (Some (JStr e))))"
  shows "list_all (\<lambda>u. resetToken u = Some (sha256_hex L secret)
                        \<and> resetTokenExpiry u = Some ((now evi + 3600000) div 1000))
           (select_by_id db1 (user_id a))
       \<and> (now evr div 1000 < (now evi + 3600000) div 1000 \<longrightarrow>
            fst (serve L evr db1 (ResetPassword (Some (JStr secret)) (Some (JStr pw))))
              = message 200 ''Password has been reset successfully.''
          \<and> list_all (\<lambda>u. password u = bcrypt_hash L pw 10 (salt evr)
                            \<and> resetToken u = None \<and> resetTokenExpiry u = None)
               (select_by_id (snd (serve L evr db1 (ResetPassword (Some (JStr secret)) (Some (JStr pw)))))
                  (user_id a))
          \<and> fst (serve L evs (snd (serve L evr db1 (ResetPassword (Some (JStr secret)) (Some (JStr pw)))))
                   (ResetPassword (Some (JStr secret)) (Some (JStr pw'))))
              = invalid_or_expired)
       \<and> ((now evi + 3600000) div 1000 \<le> now evr div 1000 \<longrightarrow>
            fst (serve L evr db1 (ResetPassword (Some (JStr secret)) (Some (JStr pw)))) = invalid_or_expired)"
proof -
  let ?fp = "sha256_hex L secret"
  let ?ex = "now evi + 3600000"
  let ?i = "user_id a"
  let ?first = "serve L evr db1 (ResetPassword (Some (JStr secret)) (Some (JStr pw)))"
  have s: "secret \<noteq> []" unfolding secret_def using rb by (rule to_hex_nonempty)
  have a: "a \<in> set db" using acct by (rule select_by_email_mem)
  have db1: "db1 = exec (now evi) (UpdateResetToken ?fp ?ex ?i) db"
    unfolding db1_def secret_def using acct e by (rule serve_forgot_password)
  have fresh': "\<not> held_elsewhere db ?i ?fp" using fresh by (simp add: secret_def)
  have stored: "list_all (\<lambda>u. resetToken u = Some ?fp \<and> resetTokenExpiry u = Some (?ex div 1000))
           (select_by_id db1 ?i)"
    unfolding db1 by (rule issued_rows)
  have late: "fst ?first = invalid_or_expired" if "?ex div 1000 \<le> now evr div 1000"
  proof -
    have "select_by_resetToken db1 ?fp (now evr) = []"
      unfolding db1 using fresh' that by (rule issued_select_expired)
    then show ?thesis by (simp add: serve_def reset_password_missing[OF _ s pw])
  qed
  have early: "fst ?first = message 200 ''Password has been reset successfully.''
          \<and> list_all (\<lambda>u. password u = bcrypt_hash L pw 10 (salt evr)
                            \<and> resetToken u = None \<and> resetTokenExpiry u = None)
               (select_by_id (snd ?first) ?i)
          \<and> fst (serve L evs (snd ?first) (ResetPassword (Some (JStr secret)) (Some (JStr pw'))))
              = invalid_or_expired"
    if "now evr div 1000 < ?ex div 1000"
  proof -
    have "select_by_resetToken db1 ?fp (now evr) \<noteq> []"
      unfolding db1 using a that by (rule issued_select_nonempty)
    then obtain u us where sel: "select_by_resetToken db1 ?fp (now evr) = u # us"
      by (cases "select_by_resetToken db1 ?fp (now evr)") auto
    then have "u \<in> set (select_by_resetToken db1 ?fp (now evr))" by simp
    then have u: "user_id u = ?i" unfolding db1 using fresh' issued_select_ids by blast
    have first: "?first =
        (message 200 ''Password has been reset successfully.'',
         exec (now evr) (UpdatePasswordClearReset (bcrypt_hash L pw 10 (salt evr)) ?i) db1)"
      by (simp add: serve_def reset_password_found[OF sel s pw] u)
    have rows: "list_all (\<lambda>u. password u = bcrypt_hash L pw 10 (salt evr)
                            \<and> resetToken u = None \<and> resetTokenExpiry u = None)
               (select_by_id (snd ?first) ?i)"
      unfolding first snd_conv by (rule cleared_rows)
    have "snd ?first =
        exec (now evr) (UpdatePasswordClearReset (bcrypt_hash L pw 10 (salt evr)) ?i)
          (exec (now evi) (UpdateResetToken ?fp ?ex ?i) db)"
      using first db1 by simp
    then have "select_by_resetToken (snd ?first) ?fp (now evs) = []"
      using cleared_select_empty[OF fresh'] by simp
    then have "fst (serve L evs (snd ?first) (ResetPassword (Some (JStr secret)) (Some (JStr pw'))))
                 = invalid_or_expired"
      by (simp add: serve_def reset_password_missing[OF _ s pw'])
    then show ?thesis using first rows by simp
  qed
  show ?thesis using stored early late by blast
qed

text \<open>
  The token is issued at the instant 2999, so the store holds the expiry 3602: the reset
  at the instant 3601999 succeeds and its repeat fails, and the reset at the instant
  3602000 fails.
\<close>

theorem reset_token_redeemed_once_witness:
  "fst (serve demo_lib (demo_env 3601999 0)
          (snd (serve demo_lib (demo_env 2999 0xA7) [demo_row] (ForgotPassword (Some (JStr ''a@x.com'')))))
          (ResetPassword (Some (JStr (to_hex (randomBytes32 (demo_env 2999 0xA7))))) (Some (JStr ''pw2''))))
     = message 200 ''Password has been reset successfully.''
   \<and> fst (serve demo_lib (demo_env 3601999 0)
          (snd (serve demo_lib (demo_env 3601999 0)
             (snd (serve demo_lib (demo_env 2999 0xA7) [demo_row] (ForgotPassword (Some (JStr ''a@x.com'')))))
             (ResetPassword (Some (JStr (to_hex (randomBytes32 (demo_env 2999 0xA7))))) (Some (JStr ''pw2'')))))
          (ResetPassword (Some (JStr (to_hex (randomBytes32 (demo_env 2999 0xA7))))) (Some (JStr ''pw3''))))
     = invalid_or_expired
   \<and> fst (serve demo_lib (demo_env 3602000 0)
          (snd (serve demo_lib (demo_env 2999 0xA7) [demo_row] (ForgotPassword (Some (JStr ''a@x.com'')))))
          (ResetPassword (Some (JStr (to_hex (randomBytes32 (demo_env 2999 0xA7))))) (Some (JStr ''pw2''))))
     = invalid_or_expired"
proof -
  have rb: "randomBytes32 (demo_env 2999 0xA7) \<noteq> []"
    by (simp add: demo_env_def replicate_numeral)
  have e: "''a@x.com'' \<noteq> []" and pw: "''pw2'' \<noteq> []" and pw': "''pw3'' \<noteq> []"
    by simp_all
  note early = reset_token_redeemed_once[where evr = "demo_env 3601999 0" and evs = "demo_env 3601999 0",
      OF demo_select e rb pw pw' demo_not_held]
  note late = reset_token_redeemed_once[where evr = "demo_env 3602000 0" and evs = "demo_env 3601999 0",
      OF demo_select e rb pw pw' demo_not_held]
  have before: "now (demo_env 3601999 0) div 1000 < (now (demo_env 2999 0xA7) + 3600000) div 1000"
    by (simp add: demo_env_def)
  have after: "(now (demo_env 2999 0xA7) + 3600000) div 1000 \<le> now (demo_env 3602000 0) div 1000"
    by (simp add: demo_env_def)
  show ?thesis
    using early late before after by blast
qed

text \<open>
  Claim C10. At most one reset secret of an account is redeemable at a time: a second
  forgot-password request for the same e-mail overwrites the stored fingerprint and
  expiry, and reset-password with the first secret then fails with
  \<open>Invalid or expired password reset token\<close>, at any time. The two secrets have
  different fingerprints, and no other account stores the first one.
\<close>

theorem second_request_overwrites_first:
  assumes acct: "select_by_email db e = a # rest" and e: "e \<noteq> []"
    and rb: "randomBytes32 eva \<noteq> []" and pw: "pw \<noteq> []"
    and fresh: "\<not> held_elsewhere db (user_id a) (sha256_hex L (to_hex (randomBytes32 eva)))"
    and differ: "sha256_hex L (to_hex (randomBytes32 eva)) \<noteq> sha256_hex L (to_hex (randomBytes32 evb))"
  defines "db2 \<equiv> run L db [(eva, ForgotPassword (Some (JStr e))), (evb, ForgotPassword (Some (JStr e)))]"
  shows "fst (serve L evc db2 (ResetPassword (Some (JStr (to_hex (randomBytes32 eva)))) (Some (JStr pw))))
           = invalid_or_expired
       \<and> list_all (\<lambda>u. resetToken u = Some (sha256_hex L (to_hex (randomBytes32 evb)))
                         \<and> resetTokenExpiry u = Some ((now evb + 3600000) div 1000))
           (select_by_id db2 (user_id a))"
proof -
  let ?fp1 = "sha256_hex L (to_hex (randomBytes32 eva))"
  let ?fp2 = "sha256_hex L (to_hex (randomBytes32 evb))"
  let ?i = "user_id a"
  let ?db1 = "exec (now eva) (UpdateResetToken ?fp1 (now eva + 3600000) ?i) db"
  have s: "to_hex (randomBytes32 eva) \<noteq> []" using rb by (rule to_hex_nonempty)
  have db1: "snd (serve L eva db (ForgotPassword (Some (JStr e)))) = ?db1"
    using acct e by (rule serve_forgot_password)
  have "select_by_email ?db1 e = exec (now eva) (UpdateResetToken ?fp1 (now eva + 3600000) ?i) (a # rest)"
    by (simp only: exec_UpdateResetToken_select_by_email acct)
  then obtain a' rest' where acct': "select_by_email ?db1 e = a' # rest'" and a': "user_id a' = ?i"
    by simp
  have db2: "db2 = exec (now evb) (UpdateResetToken ?fp2 (now evb + 3600000) ?i) ?db1"
    unfolding db2_def
    by (simp only: run.simps db1 serve_forgot_password[OF acct' e] a')
  have "select_by_resetToken db2 ?fp1 (now evc) = []"
    unfolding db2 using fresh differ by (rule overwritten_select_empty)
  then have "fst (serve L evc db2 (ResetPassword (Some (JStr (to_hex (randomBytes32 eva)))) (Some (JStr pw))))
           = invalid_or_expired"
    by (simp add: serve_def reset_password_missing[OF _ s pw])
  moreover have "list_all (\<lambda>u. resetToken u = Some ?fp2
        \<and> resetTokenExpiry u = Some ((now evb + 3600000) div 1000))
      (select_by_id db2 ?i)"
    unfolding db2 by (rule issued_rows)
  ultimately show ?thesis by simp
qed

theorem second_request_overwrites_first_witness:
  "fst (serve demo_lib (demo_env 3000 0)
          (run demo_lib [demo_row] [(demo_env 2000 0xA7, ForgotPassword (Some (JStr ''a@x.com''))),
                                    (demo_env 2500 0xB3, ForgotPassword (Some (JStr ''a@x.com'')))])
          (ResetPassword (Some (JStr (to_hex (randomBytes32 (demo_env 2000 0xA7))))) (Some (JStr ''pw2''))))
     = invalid_or_expired
   \<and> list_all (\<lambda>u. resetToken u = Some (sha256_hex demo_lib (to_hex (randomBytes32 (demo_env 2500 0xB3))))
                     \<and> resetTokenExpiry u = Some ((now (demo_env 2500 0xB3) + 3600000) div 1000))
       (select_by_id
          (run demo_lib [demo_row] [(demo_env 2000 0xA7, ForgotPassword (Some (JStr ''a@x.com''))),
                                    (demo_env 2500 0xB3, ForgotPassword (Some (JStr ''a@x.com'')))])
          (user_id demo_row))"
proof -
  have rb: "randomBytes32 (demo_env 2000 0xA7) \<noteq> []"
    by (simp add: demo_env_def replicate_numeral)
  have e: "''a@x.com'' \<noteq> []" and pw: "''pw2'' \<noteq> []"
    by simp_all
  have differ: "sha256_hex demo_lib (to_hex (randomBytes32 (demo_env 2000 0xA7)))
      \<noteq> sha256_hex demo_lib (to_hex (randomBytes32 (demo_env 2500 0xB3)))"
    by (simp add: eval_simps)
  show ?thesis
    by (rule second_request_overwrites_first[OF demo_select e rb pw demo_not_held differ])
qed

section \<open>Changing the password\<close>

text \<open>
  Claim C8. A successful change-password sends one \<open>UPDATE\<close> of the password column
  and leaves every other column of every row as it was, the reset columns among them:
  an account with an outstanding unexpired reset token still redeems the secret issued
  before, until its expiry.
\<close>

theorem change_password_keeps_reset_token:
  assumes a: "a \<in> set db" and tok: "resetToken a = Some (sha256_hex L secret)"
    and ex: "resetTokenExpiry a = Some ex" and t: "now ev' div 1000 < ex"
    and s: "secret \<noteq> []" and pw: "pw \<noteq> []"
    and ok: "fst (serve L ev db (ProfilePassword hdr old new)) = message 200 ''Password updated successfully''"
  shows "(\<exists>i. snd (profile_password L ev db hdr old new)
               = [UpdatePassword (bcrypt_hash L (string_of new) 10 (salt ev)) i])
       \<and> map (\<lambda>u. u\<lparr>password := []\<rparr>) (snd (serve L ev db (ProfilePassword hdr old new)))
           = map (\<lambda>u. u\<lparr>password := []\<rparr>) db
       \<and> fst (serve L ev' (snd (serve L ev db (ProfilePassword hdr old new)))
                (ResetPassword (Some (JStr secret)) (Some (JStr pw))))
           = message 200 ''Password has been reset successfully.''"
proof -
  let ?db' = "snd (serve L ev db (ProfilePassword hdr old new))"
  let ?h = "bcrypt_hash L (string_of new) 10 (salt ev)"
  have "fst (profile_password L ev db hdr old new) = message 200 ''Password updated successfully''"
    using ok by (simp add: serve_fst)
  then obtain i where ws: "snd (profile_password L ev db hdr old new) = [UpdatePassword ?h i]"
    using profile_password_ok by blast
  have db': "?db' = exec (now ev) (UpdatePassword ?h i) db"
    by (simp add: serve_snd ws del: exec.simps)
  have frame: "map (\<lambda>u. u\<lparr>password := []\<rparr>) ?db' = map (\<lambda>u. u\<lparr>password := []\<rparr>) db"
    unfolding db' by (rule exec_UpdatePassword_frame)
  have "select_by_resetToken db (sha256_hex L secret) (now ev') \<noteq> []"
    using a tok ex t by (rule select_by_resetToken_nonempty)
  then have "select_by_resetToken ?db' (sha256_hex L secret) (now ev') \<noteq> []"
    unfolding db' by (simp only: exec_UpdatePassword_select) simp
  then obtain u us where "select_by_resetToken ?db' (sha256_hex L secret) (now ev') = u # us"
    by (cases "select_by_resetToken ?db' (sha256_hex L secret) (now ev')") auto
  then have "fst (serve L ev' ?db' (ResetPassword (Some (JStr secret)) (Some (JStr pw))))
           = message 200 ''Password has been reset successfully.''"
    by (simp add: serve_def reset_password_found[OF _ s pw])
  then show ?thesis using frame ws by blast
qed

theorem change_password_keeps_reset_token_witness:
  "(\<exists>i. snd (profile_password demo_lib (demo_env 3500 0) [demo_row_issued]
               (Some (''Bearer '' @ demo_token)) (Some (JStr ''pw1'')) (Some (JStr ''pw9'')))
          = [UpdatePassword (bcrypt_hash demo_lib (string_of (Some (JStr ''pw9''))) 10 (salt (demo_env 3500 0))) i])
   \<and> map (\<lambda>u. u\<lparr>password := []\<rparr>)
       (snd (serve demo_lib (demo_env 3500 0) [demo_row_issued]
               (ProfilePassword (Some (''Bearer '' @ demo_token)) (Some (JStr ''pw1'')) (Some (JStr ''pw9'')))))
     = map (\<lambda>u. u\<lparr>password := []\<rparr>) [demo_row_issued]
   \<and> fst (serve demo_lib (demo_env 4000 0)
           (snd (serve demo_lib (demo_env 3500 0) [demo_row_issued]
               (ProfilePassword (Some (''Bearer '' @ demo_token)) (Some (JStr ''pw1'')) (Some (JStr ''pw9'')))))
           (ResetPassword (Some (JStr demo_secret)) (Some (JStr ''pw2''))))
     = message 200 ''Password has been reset successfully.''"
proof -
  have a: "demo_row_issued \<in> set [demo_row_issued]" by simp
  have tok: "resetToken demo_row_issued = Some (sha256_hex demo_lib demo_secret)"
    by (simp add: demo_row_issued_def demo_lib_def)
  have ex: "resetTokenExpiry demo_row_issued = Some 3602"
    by (simp add: demo_row_issued_def)
  have t: "now (demo_env 4000 0) div 1000 < 3602" by (simp add: demo_env_def)
  have s: "demo_secret \<noteq> []" by (simp add: demo_secret_def)
  have pw: "''pw2'' \<noteq> []" by simp
  have ok: "fst (serve demo_lib (demo_env 3500 0) [demo_row_issued]
               (ProfilePassword (Some (''Bearer '' @ demo_token)) (Some (JStr ''pw1'')) (Some (JStr ''pw9''))))
             = message 200 ''Password updated successfully''"
    by (simp add: eval_simps)
  show ?thesis
    by (rule change_password_keeps_reset_token[OF a tok ex t s pw ok])
qed

section \<open>The update of reset-password\<close>

text \<open>
  Claim C9. A successful reset-password sends exactly one statement to the store, the
  \<open>UPDATE\<close> that sets the password and clears both reset columns of the account found,
  so the store goes from the table before to the table after with no table between
  them, and in the table after the account has the new password hash and no reset
  token.
\<close>

theorem reset_password_single_update:
  assumes ok: "fst (reset_password L ev db tok pw) = message 200 ''Password has been reset successfully.''"
  defines "found \<equiv> hd (select_by_resetToken db (sha256_hex L (string_of tok)) (now ev))"
  shows "select_by_resetToken db (sha256_hex L (string_of tok)) (now ev) \<noteq> []
       \<and> snd (reset_password L ev db tok pw)
           = [UpdatePasswordClearReset (bcrypt_hash L (string_of pw) 10 (salt ev)) (user_id found)]
       \<and> store_states (now ev) (snd (reset_password L ev db tok pw)) db
           = [db, snd (serve L ev db (ResetPassword tok pw))]
       \<and> list_all (\<lambda>u. password u = bcrypt_hash L (string_of pw) 10 (salt ev)
                         \<and> resetToken u = None \<and> resetTokenExpiry u = None)
           (select_by_id (snd (serve L ev db (ResetPassword tok pw))) (user_id found))"
proof -
  let ?h = "bcrypt_hash L (string_of pw) 10 (salt ev)"
  from reset_password_ok[OF ok]
  obtain u us where sel: "select_by_resetToken db (sha256_hex L (string_of tok)) (now ev) = u # us"
    and rp: "reset_password L ev db tok pw =
          (message 200 ''Password has been reset successfully.'', [UpdatePasswordClearReset ?h (user_id u)])"
    by auto
  have u: "found = u" by (simp add: found_def sel)
  have st: "store_states (now ev) (snd (reset_password L ev db tok pw)) db
             = [db, snd (serve L ev db (ResetPassword tok pw))]"
    by (simp add: rp store_states_def serve_def del: exec.simps)
  have "snd (serve L ev db (ResetPassword tok pw)) = exec (now ev) (UpdatePasswordClearReset ?h (user_id u)) db"
    by (simp add: serve_snd rp del: exec.simps)
  then have "list_all (\<lambda>u. password u = ?h \<and> resetToken u = None \<and> resetTokenExpiry u = None)
           (select_by_id (snd (serve L ev db (ResetPassword tok pw))) (user_id u))"
    using cleared_rows by simp
  then show ?thesis using sel rp st u by simp
qed

theorem reset_password_single_update_witness:
  "select_by_resetToken [demo_row_issued] (sha256_hex demo_lib (string_of (Some (JStr demo_secret))))
       (now (demo_env 3000 0)) \<noteq> []
   \<and> snd (reset_password demo_lib (demo_env 3000 0) [demo_row_issued]
            (Some (JStr demo_secret)) (Some (JStr ''pw2'')))
       = [UpdatePasswordClearReset ''s4lt$pw2'' 1]
   \<and> store_states (now (demo_env 3000 0))
         (snd (reset_password demo_lib (demo_env 3000 0) [demo_row_issued]
                 (Some (JStr demo_secret)) (Some (JStr ''pw2''))))
         [demo_row_issued]
       = [[demo_row_issued],
          snd (serve demo_lib (demo_env 3000 0) [demo_row_issued]
                 (ResetPassword (Some (JStr demo_secret)) (Some (JStr ''pw2''))))]"
proof -
  have ok: "fst (reset_password demo_lib (demo_env 3000 0) [demo_row_issued]
                   (Some (JStr demo_secret)) (Some (JStr ''pw2'')))
      = message 200 ''Password has been reset successfully.''"
    by (simp add: eval_simps)
  note inst = reset_password_single_update[OF ok]
  have stmt: "UpdatePasswordClearReset
        (bcrypt_hash demo_lib (string_of (Some (JStr ''pw2''))) 10 (salt (demo_env 3000 0)))
        (user_id (hd (select_by_resetToken [demo_row_issued]
              (sha256_hex demo_lib (string_of (Some (JStr demo_secret)))) (now (demo_env 3000 0)))))
      = UpdatePasswordClearReset ''s4lt$pw2'' 1"
    by (simp add: eval_simps)
  from inst have "snd (reset_password demo_lib (demo_env 3000 0) [demo_row_issued]
            (Some (JStr demo_secret)) (Some (JStr ''pw2'')))
       = [UpdatePasswordClearReset
        (bcrypt_hash demo_lib (string_of (Some (JStr ''pw2''))) 10 (salt (demo_env 3000 0)))
        (user_id (hd (select_by_resetToken [demo_row_issued]
              (sha256_hex demo_lib (string_of (Some (JStr demo_secret)))) (now (demo_env 3000 0)))))]"
    by blast
  then have "snd (reset_password demo_lib (demo_env 3000 0) [demo_row_issued]
            (Some (JStr demo_secret)) (Some (JStr ''pw2'')))
       = [UpdatePasswordClearReset ''s4lt$pw2'' 1]"
    by (simp only: stmt)
  then show ?thesis using inst by blast
qed

section \<open>The session token\<close>

lemma hour_after_issue: "t0 + 3600000 \<le> t \<Longrightarrow> t0 div 1000 + 3600 \<le> (t::nat) div 1000"
proof -
  assume "t0 + 3600000 \<le> t"
  then have "(t0 + 3600000) div 1000 \<le> t div 1000" by (rule div_le_mono)
  then show ?thesis by simp
qed

text \<open>
  Claim C2. A login of account \<open>A\<close> issues the token that signs \<open>A\<close>'s id with an expiry
  one hour after the issue. Presented under the same key, unexpired and unmodified, it
  verifies to claims with \<open>A\<close>'s id, which the middleware passes on. Presented when its
  hour has lapsed (an hour or more after the issue, by \<open>hour_after_issue\<close>), it fails
  with \<open>Expired\<close>. A token whose claims have been altered under the issued signature,
  which is then not the signature of the claims, a token whose signature has been
  altered, and a token that does not decode fail with \<open>Invalid\<close>. The middleware answers
  each failure with 401.
\<close>

theorem session_token_verification:
  fixes L :: lib and u :: user and evi :: env
  defines "c \<equiv> jwt_claims (user_id u) 3600 (now evi)"
  defines "tok \<equiv> jwt_encode L c (hmac L (JWT_SECRET evi) c)"
  assumes acct: "select_by_email db e = u # rest" and e: "e \<noteq> []" and p: "p \<noteq> []"
    and match: "bcrypt_compare L p (password u)"
    and key: "JWT_SECRET ev = JWT_SECRET evi"
    and codec: "jwt_decode L tok = Some (c, hmac L (JWT_SECRET evi) c)"
  shows "fst (login L evi db (Some (JStr e)) (Some (JStr p))) =
           Response 200 (JObj [(''user'', JObj (delete_key ''password'' (row_json u))),
                               (''token'', JStr tok)])
       \<and> jwt_id c = user_id u
       \<and> (now ev div 1000 < now evi div 1000 + 3600 \<longrightarrow>
            jwt_verify L tok (JWT_SECRET ev) (now ev) = Inr c
            \<and> authMiddleware L ev (Some (''Bearer '' @ tok)) = Inr c)
       \<and> (now evi div 1000 + 3600 \<le> now ev div 1000 \<longrightarrow>
            jwt_verify L tok (JWT_SECRET ev) (now ev) = Inl Expired
            \<and> authMiddleware L ev (Some (''Bearer '' @ tok)) = Inl auth_failed)
       \<and> (jwt_decode L tokp = Some (c', hmac L (JWT_SECRET evi) c)
            \<and> hmac L (JWT_SECRET evi) c' \<noteq> hmac L (JWT_SECRET evi) c \<longrightarrow>
            jwt_verify L tokp (JWT_SECRET ev) (now ev) = Inl Invalid
            \<and> authMiddleware L ev (Some (''Bearer '' @ tokp)) = Inl auth_failed)
       \<and> (jwt_decode L toks = Some (c, s') \<and> s' \<noteq> hmac L (JWT_SECRET evi) c \<longrightarrow>
            jwt_verify L toks (JWT_SECRET ev) (now ev) = Inl Invalid
            \<and> authMiddleware L ev (Some (''Bearer '' @ toks)) = Inl auth_failed)
       \<and> (jwt_decode L tokm = None \<longrightarrow>
            jwt_verify L tokm (JWT_SECRET ev) (now ev) = Inl Invalid
            \<and> authMiddleware L ev (Some (''Bearer '' @ tokm)) = Inl auth_failed)"
proof -
  have issued: "fst (login L evi db (Some (JStr e)) (Some (JStr p))) =
           Response 200 (JObj [(''user'', JObj (delete_key ''password'' (row_json u))),
                               (''token'', JStr tok)])"
    unfolding tok_def c_def by (simp add: login_success[OF acct e p match])
  have subject: "jwt_id c = user_id u" and expiry: "jwt_exp c = now evi div 1000 + 3600"
    by (simp_all add: c_def jwt_claims_def)
  have verify: "jwt_verify L tok (JWT_SECRET ev) (now ev)
      = (if jwt_exp c \<le> now ev div 1000 then Inl Expired else Inr c)"
    using codec key by (simp add: jwt_verify_issued)
  have valid: "jwt_verify L tok (JWT_SECRET ev) (now ev) = Inr c
      \<and> authMiddleware L ev (Some (''Bearer '' @ tok)) = Inr c"
    if "now ev div 1000 < now evi div 1000 + 3600"
  proof -
    have "jwt_verify L tok (JWT_SECRET ev) (now ev) = Inr c"
      using that verify expiry by simp
    then show ?thesis using authMiddleware_bearer_Inr by blast
  qed
  have lapsed: "jwt_verify L tok (JWT_SECRET ev) (now ev) = Inl Expired
      \<and> authMiddleware L ev (Some (''Bearer '' @ tok)) = Inl auth_failed"
    if "now evi div 1000 + 3600 \<le> now ev div 1000"
  proof -
    have "jwt_verify L tok (JWT_SECRET ev) (now ev) = Inl Expired"
      using that verify expiry by simp
    then show ?thesis using authMiddleware_bearer_Inl by blast
  qed
  have payload: "jwt_verify L tokp (JWT_SECRET ev) (now ev) = Inl Invalid
      \<and> authMiddleware L ev (Some (''Bearer '' @ tokp)) = Inl auth_failed"
    if "jwt_decode L tokp = Some (c', hmac L (JWT_SECRET evi) c)"
      and "hmac L (JWT_SECRET evi) c' \<noteq> hmac L (JWT_SECRET evi) c"
  proof -
    have "hmac L (JWT_SECRET evi) c \<noteq> hmac L (JWT_SECRET ev) c'"
      using that(2) key by simp
    with that(1) have "jwt_verify L tokp (JWT_SECRET ev) (now ev) = Inl Invalid"
      by (rule jwt_verify_bad_signature)
    then show ?thesis using authMiddleware_bearer_Inl by blast
  qed
  have signature: "jwt_verify L toks (JWT_SECRET ev) (now ev) = Inl Invalid
      \<and> authMiddleware L ev (Some (''Bearer '' @ toks)) = Inl auth_failed"
    if "jwt_decode L toks = Some (c, s')" and "s' \<noteq> hmac L (JWT_SECRET evi) c"
  proof -
    have "s' \<noteq> hmac L (JWT_SECRET ev) c"
      using that(2) key by simp
    with that(1) have "jwt_verify L toks (JWT_SECRET ev) (now ev) = Inl Invalid"
      by (rule jwt_verify_bad_signature)
    then show ?thesis using authMiddleware_bearer_Inl by blast
  qed
  have malformed: "jwt_verify L tokm (JWT_SECRET ev) (now ev) = Inl Invalid
      \<and> authMiddleware L ev (Some (''Bearer '' @ tokm)) = Inl auth_failed"
    if "jwt_decode L tokm = None"
  proof -
    from that have "jwt_verify L tokm (JWT_SECRET ev) (now ev) = Inl Invalid"
      by (rule jwt_verify_malformed)
    then show ?thesis using authMiddleware_bearer_Inl by blast
  qed
  show ?thesis
    using issued subject valid lapsed payload signature malformed by blast
qed

text \<open>
  The sample library issues \<open>demo_token\<close> to account 1 at the instant 3000. It verifies
  at the instant 5000 and has expired at the instant 3603000, the hour after; with the
  id altered to 2, with the last character of the signature altered, and cut to seven
  characters it is invalid.
\<close>

theorem session_token_verification_witness:
  "fst (login demo_lib (demo_env 3000 0) [demo_row] (Some (JStr ''a@x.com'')) (Some (JStr ''pw1''))) =
     Response 200 (JObj [(''user'', JObj (delete_key ''password'' (row_json demo_row))),
                         (''token'', JStr demo_token)])
   \<and> authMiddleware demo_lib (demo_env 5000 0) (Some (''Bearer '' @ demo_token))
       = Inr (jwt_claims (user_id demo_row) 3600 (now (demo_env 3000 0)))
   \<and> jwt_verify demo_lib demo_token (JWT_SECRET (demo_env 3603000 0)) (now (demo_env 3603000 0))
       = Inl Expired
   \<and> jwt_verify demo_lib ''000000200000030003603key/000000100000030003603''
        (JWT_SECRET (demo_env 5000 0)) (now (demo_env 5000 0)) = Inl Invalid
   \<and> jwt_verify demo_lib demo_token_altered (JWT_SECRET (demo_env 5000 0)) (now (demo_env 5000 0))
       = Inl Invalid
   \<and> jwt_verify demo_lib ''0000001'' (JWT_SECRET (demo_env 5000 0)) (now (demo_env 5000 0))
       = Inl Invalid
   \<and> authMiddleware demo_lib (demo_env 5000 0) (Some (''Bearer '' @ demo_token_altered))
       = Inl auth_failed"
proof -
  let ?c = "jwt_claims (user_id demo_row) 3600 (now (demo_env 3000 0))"
  let ?k = "JWT_SECRET (demo_env 3000 0)"
  have e: "''a@x.com'' \<noteq> []" and p: "''pw1'' \<noteq> []" by simp_all
  have tok: "jwt_encode demo_lib ?c (hmac demo_lib ?k ?c) = demo_token"
    by (simp add: eval_simps)
  have codec: "jwt_decode demo_lib (jwt_encode demo_lib ?c (hmac demo_lib ?k ?c))
      = Some (?c, hmac demo_lib ?k ?c)"
    by (simp add: eval_simps)
  have key1: "JWT_SECRET (demo_env 5000 0) = ?k" and key2: "JWT_SECRET (demo_env 3603000 0) = ?k"
    by (simp_all add: demo_env_def)
  note early = session_token_verification[OF demo_select e p demo_compare key1 codec,
      where tokp = "''000000200000030003603key/000000100000030003603''"
        and c' = "jwt_claims 2 3600 (now (demo_env 3000 0))"
        and toks = demo_token_altered
        and s' = "''key/000000100000030003602''"
        and tokm = "''0000001''"]
  note late = session_token_verification[OF demo_select e p demo_compare key2 codec]
  have before: "now (demo_env 5000 0) div 1000 < now (demo_env 3000 0) div 1000 + 3600"
    by (simp add: demo_env_def)
  have after: "now (demo_env 3000 0) div 1000 + 3600 \<le> now (demo_env 3603000 0) div 1000"
    by (simp add: demo_env_def)
  have altered_payload:
    "jwt_decode demo_lib ''000000200000030003603key/000000100000030003603''
       = Some (jwt_claims 2 3600 (now (demo_env 3000 0)), hmac demo_lib ?k ?c)
     \<and> hmac demo_lib ?k (jwt_claims 2 3600 (now (demo_env 3000 0))) \<noteq> hmac demo_lib ?k ?c"
    by (simp add: eval_simps)
  have altered_signature:
    "jwt_decode demo_lib demo_token_altered = Some (?c, ''key/000000100000030003602'')
     \<and> ''key/000000100000030003602'' \<noteq> hmac demo_lib ?k ?c"
    by (simp add: eval_simps)
  have cut: "jwt_decode demo_lib ''0000001'' = None"
    by (simp add: eval_simps)
  from early before altered_payload altered_signature cut
  have "fst (login demo_lib (demo_env 3000 0) [demo_row] (Some (JStr ''a@x.com'')) (Some (JStr ''pw1''))) =
     Response 200 (JObj [(''user'', JObj (delete_key ''password'' (row_json demo_row))),
                         (''token'', JStr (jwt_encode demo_lib ?c (hmac demo_lib ?k ?c)))])
   \<and> authMiddleware demo_lib (demo_env 5000 0)
        (Some (''Bearer '' @ jwt_encode demo_lib ?c (hmac demo_lib ?k ?c))) = Inr ?c
   \<and> jwt_verify demo_lib ''000000200000030003603key/000000100000030003603''
        (JWT_SECRET (demo_env 5000 0)) (now (demo_env 5000 0)) = Inl Invalid
   \<and> jwt_verify demo_lib demo_token_altered (JWT_SECRET (demo_env 5000 0)) (now (demo_env 5000 0))
       = Inl Invalid
   \<and> jwt_verify demo_lib ''0000001'' (JWT_SECRET (demo_env 5000 0)) (now (demo_env 5000 0))
       = Inl Invalid
   \<and> authMiddleware demo_lib (demo_env 5000 0) (Some (''Bearer '' @ demo_token_altered))
       = Inl auth_failed"
    by blast
  moreover from late after
  have "jwt_verify demo_lib (jwt_encode demo_lib ?c (hmac demo_lib ?k ?c))
          (JWT_SECRET (demo_env 3603000 0)) (now (demo_env 3603000 0)) = Inl Expired"
    by blast
  ultimately show ?thesis by (simp only: tok)
qed

section \<open>What a response carries\<close>

lemma login_returns_reset_columns:
  assumes "select_by_email db e = u # rest" and "e \<noteq> []" and "p \<noteq> []"
    and "bcrypt_compare L p (password u)"
  shows "\<exists>usr tok. fst (login L ev db (Some (JStr e)) (Some (JStr p)))
        = Response 200 (JObj [(''user'', JObj usr), (''token'', tok)])
      \<and> map_of usr ''resetToken'' = Some (opt_json JStr (resetToken u))
      \<and> map_of usr ''password'' = None"
  by (simp add: login_success[OF assms] row_json_def delete_key_def)

text \<open>
  Claim C5 has the fingerprint never sent to the end user. After a registration and a
  forgot-password request, the response to a login with the right password carries the
  row with only \<open>password\<close> deleted: its \<open>resetToken\<close> is the stored fingerprint of the
  secret, and its \<open>resetTokenExpiry\<close> the expiry.
\<close>

theorem login_response_carries_fingerprint:
  "fst (serve demo_lib (demo_env 3000 0)
          (run demo_lib [] [(demo_env 1000 0, Register (Some ''a@x.com'') (Some (JStr ''pw1''))),
                            (demo_env 2000 0xA7, ForgotPassword (Some (JStr ''a@x.com'')))])
          (Login (Some (JStr ''a@x.com'')) (Some (JStr ''pw1''))))
   = Response 200 (JObj
       [(''user'', JObj [(''id'', JNum 1), (''email'', JStr ''a@x.com''), (''name'', JNull),
           (''username'', JNull), (''onboarded'', JNum 0), (''image'', JNull),
           (''resetToken'', JStr (sha256_hex demo_lib (to_hex (randomBytes32 (demo_env 2000 0xA7))))),
           (''resetTokenExpiry'', JNum 3602), (''created_at'', JNum 1)]),
        (''token'', JStr ''000000100000030003603key/000000100000030003603'')])"
  by (simp add: eval_simps)

section \<open>The OAuth account link, from the specification\<close>

text \<open>
  Claim C6. Given the e-mail and display name of the provider's callback, the account
  link creates an account with no local password and \<open>onboarded = false\<close> when no
  account has the e-mail, reuses the account when one has, issues a session token for
  the account's id in both cases, and leaves every account that existed as it was,
  its password hash and its onboarded flag included.
\<close>

theorem oauth_account_link_spec:
  "(case findByEmail store em of
      None \<Rightarrow>
        (\<exists>a. oauth_account_link issue store em displayName = ((a, issue (acc_id a)), store @ [a])
             \<and> acc_email a = em \<and> passwordHash a = None \<and> acc_onboarded a = False)
    | Some a \<Rightarrow> oauth_account_link issue store em displayName = ((a, issue (acc_id a)), store))
   \<and> take (length store) (snd (oauth_account_link issue store em displayName)) = store"
  by (simp add: oauth_account_link_def Let_def split: option.splits)

end
